theory Spec2Isabelle
  imports Main "HOL-Library.Extended_Nat"
begin

section \<open>Strings of the source language\<close>

text \<open>
  The source is TypeScript; its strings are sequences of UTF-16 code units. The model uses
  \<open>string\<close> (\<open>char list\<close>), that is the code units \<open>0x00\<close> to \<open>0xFF\<close>; every character the
  source's patterns name lies in that range.
\<close>

abbreviation bs :: char where "bs \<equiv> CHR 0x5C"
abbreviation nl :: char where "nl \<equiv> CHR 0x0A"

definition isLineTerminator :: "char \<Rightarrow> bool" where
  "isLineTerminator c = (c = CHR 0x0A \<or> c = CHR 0x0D)"

definition isWhiteSpace :: "char \<Rightarrow> bool" where
  "isWhiteSpace c = (c = CHR 0x20 \<or> c = CHR 0x0A \<or> c = CHR 0x09 \<or> c = CHR 0x0D
      \<or> c = CHR 0x0B \<or> c = CHR 0x0C \<or> c = CHR 0xA0)"

definition isDigit :: "char \<Rightarrow> bool" where
  "isDigit c = (c \<in> set ''0123456789'')"

definition inRange :: "char \<Rightarrow> char \<Rightarrow> char \<Rightarrow> bool" where
  "inRange lo hi c = ((of_char lo :: int) \<le> of_char c \<and> (of_char c :: int) \<le> of_char hi)"

definition toUpperCh :: "char \<Rightarrow> char" where
  "toUpperCh c = (if inRange CHR ''a'' CHR ''z'' c \<or> (inRange (CHR 0xE0) (CHR 0xFE) c \<and> c \<noteq> CHR 0xF7)
      then char_of (of_char c - (32::int)) else c)"

definition toLowerCh :: "char \<Rightarrow> char" where
  "toLowerCh c = (if inRange CHR ''A'' CHR ''Z'' c \<or> (inRange (CHR 0xC0) (CHR 0xDE) c \<and> c \<noteq> CHR 0xD7)
      then char_of (of_char c + (32::int)) else c)"

definition toLowerCase :: "string \<Rightarrow> string" where
  "toLowerCase s = map toLowerCh s"

definition trim :: "string \<Rightarrow> string" where
  "trim s = rev (dropWhile isWhiteSpace (rev (dropWhile isWhiteSpace s)))"

fun startsWith :: "string \<Rightarrow> string \<Rightarrow> bool" where
  "startsWith [] s = True"
| "startsWith (p # ps) [] = False"
| "startsWith (p # ps) (c # cs) = (p = c \<and> startsWith ps cs)"

text \<open>\<open>indexOfFrom p i s\<close>: the index of the first occurrence of \<open>p\<close> in \<open>s\<close>, counted from \<open>i\<close>.\<close>

fun indexOfFrom :: "string \<Rightarrow> nat \<Rightarrow> string \<Rightarrow> nat option" where
  "indexOfFrom p i [] = (if p = [] then Some i else None)"
| "indexOfFrom p i (c # cs) = (if startsWith p (c # cs) then Some i else indexOfFrom p (i + 1) cs)"

definition indexOf :: "string \<Rightarrow> string \<Rightarrow> nat option" where
  "indexOf s p = indexOfFrom p 0 s"

definition includesStr :: "string \<Rightarrow> string \<Rightarrow> bool" where
  "includesStr s p = (indexOf s p \<noteq> None)"

fun digitCh :: "nat \<Rightarrow> char" where
  "digitCh n = (''0123456789'' ! n)"

fun showNat :: "nat \<Rightarrow> string" where
  "showNat n = (if n < 10 then [digitCh n] else showNat (n div 10) @ [digitCh (n mod 10)])"

declare showNat.simps [simp del]

section \<open>Regular expressions\<close>

datatype citem = IC char | IR char char | IS | INS

datatype cclass = Lit char | Dot | Dig | Spc | Cls "citem list" | NCls "citem list"

datatype regex =
    Ch cclass
  | Str string
  | Eps
  | Seq regex regex
  | Alt regex regex
  | Rep nat "nat option" bool regex
  | Grp nat regex
  | Bol
  | Eol
  | Look regex
  | NLook regex
  | NBehind cclass
  | BRef nat

datatype flags = Flags (ignoreCase: bool) (multiline: bool)

datatype mstate = MState (pre: string) (suf: string) (endIndex: nat) (captures: "(nat \<times> string) list")

type_synonym cont = "mstate \<Rightarrow> mstate option"

fun inItem :: "citem \<Rightarrow> char \<Rightarrow> bool" where
  "inItem (IC a) c = (c = a)"
| "inItem (IR lo hi) c = inRange lo hi c"
| "inItem IS c = isWhiteSpace c"
| "inItem INS c = (\<not> isWhiteSpace c)"

definition inItems :: "flags \<Rightarrow> citem list \<Rightarrow> char \<Rightarrow> bool" where
  "inItems f its c = (list_ex (\<lambda>it. inItem it c) its
     \<or> (ignoreCase f \<and> list_ex (\<lambda>it. inItem it (toUpperCh c) \<or> inItem it (toLowerCh c)) its))"

definition canon :: "flags \<Rightarrow> char \<Rightarrow> char" where
  "canon f c = (if ignoreCase f then toUpperCh c else c)"

fun cmatch :: "flags \<Rightarrow> cclass \<Rightarrow> char \<Rightarrow> bool" where
  "cmatch f (Lit a) c = (canon f c = canon f a)"
| "cmatch f Dot c = (\<not> isLineTerminator c)"
| "cmatch f Dig c = isDigit c"
| "cmatch f Spc c = isWhiteSpace c"
| "cmatch f (Cls its) c = inItems f its c"
| "cmatch f (NCls its) c = (\<not> inItems f its c)"

fun litPrefix :: "flags \<Rightarrow> string \<Rightarrow> mstate \<Rightarrow> mstate option" where
  "litPrefix f [] x = Some x"
| "litPrefix f (a # as) (MState p [] i cs) = None"
| "litPrefix f (a # as) (MState p (c # s) i cs) =
     (if canon f c = canon f a then litPrefix f as (MState (c # p) s (i + 1) cs) else None)"

primrec groups :: "regex \<Rightarrow> nat list" where
  "groups (Ch cc) = []"
| "groups (Str s) = []"
| "groups Eps = []"
| "groups (Seq a b) = groups a @ groups b"
| "groups (Alt a b) = groups a @ groups b"
| "groups (Rep mn mx g a) = groups a"
| "groups (Grp n a) = n # groups a"
| "groups Bol = []"
| "groups Eol = []"
| "groups (Look a) = groups a"
| "groups (NLook a) = groups a"
| "groups (NBehind cc) = []"
| "groups (BRef n) = []"

definition clearCaps :: "nat list \<Rightarrow> mstate \<Rightarrow> mstate" where
  "clearCaps gs x = (if gs = [] then x
     else MState (pre x) (suf x) (endIndex x) (filter (\<lambda>(k, v). k \<notin> set gs) (captures x)))"

definition setCap :: "nat \<Rightarrow> mstate \<Rightarrow> mstate \<Rightarrow> mstate" where
  "setCap n x y = MState (pre y) (suf y) (endIndex y)
     ((n, take (endIndex y - endIndex x) (suf x)) # filter (\<lambda>(k, v). k \<noteq> n) (captures y))"

definition decMax :: "nat option \<Rightarrow> nat option" where
  "decMax mx = (case mx of None \<Rightarrow> None | Some k \<Rightarrow> Some (k - 1))"

text \<open>
  The repeat matcher of the language definition, once the minimum is used up. Every further
  iteration must consume a character, so the remaining input bounds their number: the
  recursion is on it.
\<close>

primrec starLoop :: "(cont \<Rightarrow> cont) \<Rightarrow> nat list \<Rightarrow> nat option \<Rightarrow> bool \<Rightarrow> string \<Rightarrow> cont \<Rightarrow> cont" where
  "starLoop ma gs mx greedy [] c x = c x"
| "starLoop ma gs mx greedy (u # fuel) c x =
     (if mx = Some 0 then c x
      else if greedy then
        (case ma (\<lambda>y. if endIndex y = endIndex x then None
                       else starLoop ma gs (decMax mx) greedy fuel c y) (clearCaps gs x) of
           Some z \<Rightarrow> Some z
         | None \<Rightarrow> c x)
      else
        (case c x of
           Some z \<Rightarrow> Some z
         | None \<Rightarrow> ma (\<lambda>y. if endIndex y = endIndex x then None
                       else starLoop ma gs (decMax mx) greedy fuel c y) (clearCaps gs x)))"

primrec repeatMatcher :: "(cont \<Rightarrow> cont) \<Rightarrow> nat list \<Rightarrow> nat \<Rightarrow> nat option \<Rightarrow> bool \<Rightarrow> cont \<Rightarrow> cont" where
  "repeatMatcher ma gs 0 mx greedy c x = starLoop ma gs mx greedy (suf x) c x"
| "repeatMatcher ma gs (Suc n) mx greedy c x =
     (if mx = Some 0 then c x
      else ma (\<lambda>y. repeatMatcher ma gs n (decMax mx) greedy c y) (clearCaps gs x))"

primrec m :: "flags \<Rightarrow> regex \<Rightarrow> cont \<Rightarrow> cont" where
  "m f (Ch cc) c x =
     (case suf x of
        [] \<Rightarrow> None
      | ch # rest \<Rightarrow>
          if cmatch f cc ch then c (MState (ch # pre x) rest (endIndex x + 1) (captures x))
          else None)"
| "m f (Str s) c x = (case litPrefix f s x of None \<Rightarrow> None | Some y \<Rightarrow> c y)"
| "m f Eps c x = c x"
| "m f (Seq a b) c x = m f a (m f b c) x"
| "m f (Alt a b) c x = (case m f a c x of Some z \<Rightarrow> Some z | None \<Rightarrow> m f b c x)"
| "m f (Rep mn mx greedy a) c x = repeatMatcher (m f a) (groups a) mn mx greedy c x"
| "m f (Grp n a) c x = m f a (\<lambda>y. c (setCap n x y)) x"
| "m f Bol c x =
     (if pre x = [] \<or> (multiline f \<and> isLineTerminator (hd (pre x))) then c x else None)"
| "m f Eol c x =
     (if suf x = [] \<or> (multiline f \<and> isLineTerminator (hd (suf x))) then c x else None)"
| "m f (Look a) c x =
     (case m f a Some x of
        None \<Rightarrow> None
      | Some y \<Rightarrow> c (MState (pre x) (suf x) (endIndex x) (captures y)))"
| "m f (NLook a) c x = (case m f a Some x of None \<Rightarrow> c x | Some y \<Rightarrow> None)"
| "m f (NBehind cc) c x =
     (case pre x of
        [] \<Rightarrow> c x
      | ch # rest \<Rightarrow> if cmatch f cc ch then None else c x)"
| "m f (BRef n) c x =
     (case map_of (captures x) n of
        None \<Rightarrow> c x
      | Some s \<Rightarrow> (case litPrefix f s x of None \<Rightarrow> None | Some y \<Rightarrow> c y))"

text \<open>A match: where it starts, the text it covers, and the captures.\<close>

datatype rmatch = RMatch (index: nat) (matched: string) (groupsOf: "(nat \<times> string) list")

definition matchAt :: "flags \<Rightarrow> regex \<Rightarrow> string \<Rightarrow> nat \<Rightarrow> string \<Rightarrow> rmatch option" where
  "matchAt f r p i s =
     (case m f r Some (MState p s i []) of
        None \<Rightarrow> None
      | Some y \<Rightarrow> Some (RMatch i (take (endIndex y - i) s) (captures y)))"

text \<open>\<open>exec\<close> on a pattern without the global flag: the leftmost match.\<close>

primrec execFrom :: "flags \<Rightarrow> regex \<Rightarrow> string \<Rightarrow> nat \<Rightarrow> string \<Rightarrow> rmatch option" where
  "execFrom f r p i [] = matchAt f r p i []"
| "execFrom f r p i (c # cs) =
     (case matchAt f r p i (c # cs) of
        Some mt \<Rightarrow> Some mt
      | None \<Rightarrow> execFrom f r (c # p) (i + 1) cs)"

definition regexExec :: "flags \<Rightarrow> regex \<Rightarrow> string \<Rightarrow> rmatch option" where
  "regexExec f r s = execFrom f r [] 0 s"

text \<open>
  The successive matches of a global pattern, with the text between them: after a match the
  search resumes at its end, and one character further when the match was empty.
\<close>

datatype piece = Keep char | Hit rmatch

primrec scan :: "flags \<Rightarrow> regex \<Rightarrow> nat \<Rightarrow> string \<Rightarrow> nat \<Rightarrow> string \<Rightarrow> piece list" where
  "scan f r skip p i [] =
     (if skip = 0 then (case matchAt f r p i [] of None \<Rightarrow> [] | Some mt \<Rightarrow> [Hit mt]) else [])"
| "scan f r skip p i (c # cs) =
     (if skip \<noteq> 0 then scan f r (skip - 1) (c # p) (i + 1) cs
      else (case matchAt f r p i (c # cs) of
              None \<Rightarrow> Keep c # scan f r 0 (c # p) (i + 1) cs
            | Some mt \<Rightarrow>
                if matched mt = [] then Hit mt # Keep c # scan f r 0 (c # p) (i + 1) cs
                else Hit mt # scan f r (length (matched mt) - 1) (c # p) (i + 1) cs))"

definition pieces :: "flags \<Rightarrow> regex \<Rightarrow> string \<Rightarrow> piece list" where
  "pieces f r s = scan f r 0 [] 0 s"

text \<open>The substitution patterns of a replacement string (\<open>$$\<close>, \<open>$&\<close>, \<open>$`\<close>, \<open>$'\<close>, \<open>$n\<close>, \<open>$nn\<close>).\<close>

definition capText :: "(nat \<times> string) list \<Rightarrow> nat \<Rightarrow> string" where
  "capText cs k = (case map_of cs k of None \<Rightarrow> [] | Some v \<Rightarrow> v)"

definition digitVal :: "char \<Rightarrow> nat" where
  "digitVal c = of_char c - 48"

fun getSubstitution :: "string \<Rightarrow> string \<Rightarrow> nat \<Rightarrow> nat \<Rightarrow> (nat \<times> string) list \<Rightarrow> string \<Rightarrow> string" where
  "getSubstitution mtd str position ncap caps [] = []"
| "getSubstitution mtd str position ncap caps [c] = [c]"
| "getSubstitution mtd str position ncap caps (c # d # rest) =
     (if c \<noteq> CHR ''$'' then c # getSubstitution mtd str position ncap caps (d # rest)
      else if d = CHR ''$'' then CHR ''$'' # getSubstitution mtd str position ncap caps rest
      else if d = CHR ''&'' then mtd @ getSubstitution mtd str position ncap caps rest
      else if d = CHR 0x60 then take position str @ getSubstitution mtd str position ncap caps rest
      else if d = CHR 0x27 then
        drop (position + length mtd) str @ getSubstitution mtd str position ncap caps rest
      else if isDigit d then
        (case rest of
           e # rest' \<Rightarrow>
             if isDigit e \<and> digitVal d * 10 + digitVal e \<le> ncap then
               (if 1 \<le> digitVal d * 10 + digitVal e
                then capText caps (digitVal d * 10 + digitVal e) @ getSubstitution mtd str position ncap caps rest'
                else c # d # e # getSubstitution mtd str position ncap caps rest')
             else if 1 \<le> digitVal d \<and> digitVal d \<le> ncap
               then capText caps (digitVal d) @ getSubstitution mtd str position ncap caps rest
               else c # d # getSubstitution mtd str position ncap caps rest
         | [] \<Rightarrow>
             if 1 \<le> digitVal d \<and> digitVal d \<le> ncap then capText caps (digitVal d)
             else [c, d])
      else c # getSubstitution mtd str position ncap caps (d # rest))"

text \<open>\<open>s.replace(/r/g, template)\<close>\<close>

fun renderPiece :: "string \<Rightarrow> nat \<Rightarrow> string \<Rightarrow> piece \<Rightarrow> string" where
  "renderPiece str ncap tpl (Keep c) = [c]"
| "renderPiece str ncap tpl (Hit mt) = getSubstitution (matched mt) str (index mt) ncap (groupsOf mt) tpl"

definition replaceAll :: "flags \<Rightarrow> regex \<Rightarrow> string \<Rightarrow> string \<Rightarrow> string" where
  "replaceAll f r tpl s = concat (map (renderPiece s (length (groups r)) tpl) (pieces f r s))"

text \<open>\<open>s.replace(/r/g, callback)\<close>, the callback threading a state of its own.\<close>

fun replaceFn :: "(rmatch \<Rightarrow> 's \<Rightarrow> string \<times> 's) \<Rightarrow> piece list \<Rightarrow> 's \<Rightarrow> string \<times> 's" where
  "replaceFn cb [] st = ([], st)"
| "replaceFn cb (Keep c # ps) st = (case replaceFn cb ps st of (out, st') \<Rightarrow> (c # out, st'))"
| "replaceFn cb (Hit mt # ps) st =
     (case cb mt st of (txt, st1) \<Rightarrow>
        (case replaceFn cb ps st1 of (out, st') \<Rightarrow> (txt @ out, st')))"

text \<open>\<open>s.replace(pattern, replacement)\<close> with a string pattern: the first occurrence only.\<close>

definition replaceStr :: "string \<Rightarrow> string \<Rightarrow> string \<Rightarrow> string" where
  "replaceStr pat rep s =
     (case indexOf s pat of
        None \<Rightarrow> s
      | Some i \<Rightarrow> take i s @ getSubstitution pat s i 0 [] rep @ drop (i + length pat) s)"


section \<open>Numbers: the size of a blank\<close>

text \<open>
  \<open>match.length * 0.15\<close> is a product of double-precision numbers, and the template string
  prints it with the shortest decimal digits that read back as the same number. A number is
  kept as \<open>num / 2 ^ scale\<close>; rounding is to 53 significant bits, ties to even.
\<close>

datatype dbl = Dbl (num: int) (scale: nat)

function bitLength :: "int \<Rightarrow> nat" where
  "bitLength n = (if n \<le> 0 then 0 else Suc (bitLength (n div 2)))"
  by pat_completeness auto
termination
  by (relation "measure nat") auto

declare bitLength.simps [simp del]

definition round53 :: "int \<Rightarrow> int" where
  "round53 n =
     (if bitLength n \<le> 53 then n
      else (if 2 * (n mod 2 ^ (bitLength n - 53)) > 2 ^ (bitLength n - 53)
               \<or> (2 * (n mod 2 ^ (bitLength n - 53)) = 2 ^ (bitLength n - 53)
                   \<and> odd (n div 2 ^ (bitLength n - 53)))
            then n div 2 ^ (bitLength n - 53) + 1
            else n div 2 ^ (bitLength n - 53)) * 2 ^ (bitLength n - 53))"

text \<open>The double nearest to \<open>p / q\<close>: the quotient to at least 54 bits and a sticky bit, rounded.\<close>

definition toDouble :: "int \<Rightarrow> int \<Rightarrow> dbl" where
  "toDouble p q =
     Dbl (round53 (2 * ((p * 2 ^ (55 + bitLength q - bitLength p)) div q)
                   + (if (p * 2 ^ (55 + bitLength q - bitLength p)) mod q = 0 then 0 else 1)))
         (55 + bitLength q - bitLength p + 1)"

definition numTimes :: "nat \<Rightarrow> dbl \<Rightarrow> dbl" where
  "numTimes n d = Dbl (round53 (int n * num d)) (scale d)"

definition numLe :: "dbl \<Rightarrow> dbl \<Rightarrow> bool" where
  "numLe a b = (num a * 2 ^ scale b \<le> num b * 2 ^ scale a)"

definition mathMin :: "dbl \<Rightarrow> dbl \<Rightarrow> dbl" where
  "mathMin a b = (if numLe a b then a else b)"

definition sameNum :: "dbl \<Rightarrow> dbl \<Rightarrow> bool" where
  "sameNum a b = (num a * 2 ^ scale b = num b * 2 ^ scale a)"

function showInt :: "int \<Rightarrow> string" where
  "showInt n = (if n < 10 then [digitCh (nat n)] else showInt (n div 10) @ [digitCh (nat (n mod 10))])"
  by pat_completeness auto
termination
  by (relation "measure nat") auto

declare showInt.simps [simp del]

text \<open>
  \<open>decExp d\<close> is the \<open>n\<close> with \<open>10 ^ (n - 1) \<le> d < 10 ^ n\<close>, for \<open>d\<close> from \<open>0.000001\<close> on:
  the digits of the integer part, or minus the zeros after the point.
\<close>

definition decExp :: "dbl \<Rightarrow> int" where
  "decExp d =
     (if 2 ^ scale d \<le> num d then int (length (showInt (num d div 2 ^ scale d)))
      else - int (length (takeWhile (\<lambda>j. num d * 10 ^ (j + 1) < 2 ^ scale d) [0, 1, 2, 3, 4, 5])))"

text \<open>\<open>d * 10 ^ e\<close> as a fraction.\<close>

definition shifted :: "dbl \<Rightarrow> int \<Rightarrow> int \<times> int" where
  "shifted d e = (if 0 \<le> e then (num d * 10 ^ nat e, 2 ^ scale d)
                  else (num d, 2 ^ scale d * 10 ^ nat (- e)))"

definition readsBack :: "dbl \<Rightarrow> int \<Rightarrow> nat \<Rightarrow> int \<Rightarrow> bool" where
  "readsBack d n k s =
     (10 ^ (k - 1) \<le> s \<and> s < 10 ^ k \<and>
      sameNum d (if 0 \<le> int k - n then toDouble s (10 ^ nat (int k - n))
                 else toDouble (s * 10 ^ nat (n - int k)) 1))"

definition digitsOfLength :: "dbl \<Rightarrow> int \<Rightarrow> nat \<Rightarrow> int option" where
  "digitsOfLength d n k =
     (case shifted d (int k - n) of (a, b) \<Rightarrow>
        if readsBack d n k (a div b) then
          (if readsBack d n k (a div b + 1)
              \<and> (b < 2 * (a mod b) \<or> (b = 2 * (a mod b) \<and> odd (a div b)))
           then Some (a div b + 1) else Some (a div b))
        else if readsBack d n k (a div b + 1) then Some (a div b + 1)
        else None)"

primrec shortestDigits :: "dbl \<Rightarrow> int \<Rightarrow> nat list \<Rightarrow> (nat \<times> int) option" where
  "shortestDigits d n [] = None"
| "shortestDigits d n (k # ks) =
     (case digitsOfLength d n k of
        Some s \<Rightarrow> Some (k, s)
      | None \<Rightarrow> shortestDigits d n ks)"

text \<open>
  The decimal notation of a positive number below \<open>10 ^ 21\<close> and not below \<open>0.000001\<close>; the
  sizes printed here lie between \<open>0.3\<close> and \<open>4\<close>. (Other numbers have an exponent notation,
  which no caller needs.)
\<close>

definition numToString :: "dbl \<Rightarrow> string" where
  "numToString d =
     (case shortestDigits d (decExp d) [1, 2, 3, 4, 5, 6, 7, 8, 9, 10, 11, 12, 13, 14, 15, 16, 17] of
        None \<Rightarrow> []
      | Some (k, s) \<Rightarrow>
          if int k \<le> decExp d then showInt s @ replicate (nat (decExp d) - k) CHR ''0''
          else if 0 < decExp d then take (nat (decExp d)) (showInt s) @ ''.'' @ drop (nat (decExp d)) (showInt s)
          else ''0.'' @ replicate (nat (- decExp d)) CHR ''0'' @ showInt s)"

section \<open>The sanitizer\<close>

fun seqs :: "regex list \<Rightarrow> regex" where
  "seqs [] = Eps"
| "seqs [r] = r"
| "seqs (r # rs) = Seq r (seqs rs)"

abbreviation star :: "regex \<Rightarrow> regex" where "star r \<equiv> Rep 0 None True r"
abbreviation plus1 :: "regex \<Rightarrow> regex" where "plus1 r \<equiv> Rep (Suc 0) None True r"
abbreviation lazyStar :: "regex \<Rightarrow> regex" where "lazyStar r \<equiv> Rep 0 None False r"
abbreviation lazyPlus :: "regex \<Rightarrow> regex" where "lazyPlus r \<equiv> Rep (Suc 0) None False r"
abbreviation opt :: "regex \<Rightarrow> regex" where "opt r \<equiv> Rep 0 (Some (Suc 0)) True r"
abbreviation twoOrMore :: "regex \<Rightarrow> regex" where "twoOrMore r \<equiv> Rep (Suc (Suc 0)) None True r"
abbreviation chr :: "char \<Rightarrow> regex" where "chr c \<equiv> Ch (Lit c)"
abbreviation anyChar :: regex where "anyChar \<equiv> Ch (Cls [IS, INS])"

definition noFlags :: flags where "noFlags = Flags False False"
definition flagM :: flags where "flagM = Flags False True"
definition flagI :: flags where "flagI = Flags True False"

text \<open>Lines 15 to 19: the old option syntax of \<open>enumerate\<close>.\<close>

definition fixEnumerate :: "string \<Rightarrow> string" where
  "fixEnumerate s =
     replaceAll noFlags (Str (bs # ''begin{enumerate}[1)]'')) (bs # ''begin{enumerate}[label='' @ bs # ''arabic*)]'')
    (replaceAll noFlags (Str (bs # ''begin{enumerate}[a)]'')) (bs # ''begin{enumerate}[label='' @ bs # ''alph*)]'')
    (replaceAll noFlags (Str (bs # ''begin{enumerate}[(1)]'')) (bs # ''begin{enumerate}[label=('' @ bs # ''arabic*)]'')
    (replaceAll noFlags (Str (bs # ''begin{enumerate}[(i)]'')) (bs # ''begin{enumerate}[label=('' @ bs # ''roman*)]'')
    (replaceAll noFlags (Str (bs # ''begin{enumerate}[(a)]'')) (bs # ''begin{enumerate}[label=('' @ bs # ''alph*)]'')
       s))))"

text \<open>Lines 23 to 67: the protected spans, each replaced by a placeholder.\<close>

record blocks =
  counter :: nat
  mathBlocks :: "nat \<rightharpoonup> string"
  verbatimBlocks :: "nat \<rightharpoonup> string"

record comments =
  commentCounter :: nat
  commentLines :: "string \<rightharpoonup> string"

definition inlineMath :: regex where
  "inlineMath = seqs [chr CHR ''$'', Grp 1 (plus1 (Ch (NCls [IC CHR ''$'']))), chr CHR ''$'']"

definition displayMath :: regex where
  "displayMath = seqs [Str [bs, CHR ''[''], Grp 1 (plus1 (Ch (NCls [IC CHR '']'']))), Str [bs, CHR '']'']]"

definition dollarMath :: regex where
  "dollarMath = seqs [Str ''$$'', Grp 1 (lazyPlus anyChar), Str ''$$'']"

definition verbatim :: regex where
  "verbatim = seqs [Str (bs # ''verb''), Grp 1 (Ch (NCls [IR CHR ''a'' CHR ''z'', IR CHR ''A'' CHR ''Z''])),
                    Grp 2 (lazyPlus (Ch Dot)), BRef 1]"

definition commentLine :: regex where
  "commentLine = seqs [Bol, star (Ch (Cls [IC CHR '' '', IC (CHR 0x09)])), chr CHR ''%'', star (Ch Dot)]"

definition keepMath :: "rmatch \<Rightarrow> blocks \<Rightarrow> string \<times> blocks" where
  "keepMath mt b =
     (''MATHBLOCK'' @ showNat (counter b),
      b\<lparr>mathBlocks := (mathBlocks b)(counter b \<mapsto> matched mt), counter := counter b + 1\<rparr>)"

definition keepVerbatim :: "rmatch \<Rightarrow> blocks \<Rightarrow> string \<times> blocks" where
  "keepVerbatim mt b =
     (''VERBBLOCK'' @ showNat (counter b),
      b\<lparr>verbatimBlocks := (verbatimBlocks b)(counter b \<mapsto> matched mt), counter := counter b + 1\<rparr>)"

definition keepComment :: "rmatch \<Rightarrow> comments \<Rightarrow> string \<times> comments" where
  "keepComment mt k =
     (''LATEXCOMMENT'' @ showNat (commentCounter k),
      k\<lparr>commentLines := (commentLines k)(''LATEXCOMMENT'' @ showNat (commentCounter k) \<mapsto> matched mt),
        commentCounter := commentCounter k + 1\<rparr>)"

definition protectBlocks :: "string \<Rightarrow> string \<times> blocks" where
  "protectBlocks s =
     (case replaceFn keepMath (pieces noFlags inlineMath s)
             \<lparr>counter = 0, mathBlocks = Map.empty, verbatimBlocks = Map.empty\<rparr> of (s1, b1) \<Rightarrow>
      case replaceFn keepMath (pieces noFlags displayMath s1) b1 of (s2, b2) \<Rightarrow>
      case replaceFn keepMath (pieces noFlags dollarMath s2) b2 of (s3, b3) \<Rightarrow>
      replaceFn keepVerbatim (pieces noFlags verbatim s3) b3)"

definition protectComments :: "string \<Rightarrow> string \<times> comments" where
  "protectComments s =
     replaceFn keepComment (pieces flagM commentLine s) \<lparr>commentCounter = 0, commentLines = Map.empty\<rparr>"

text \<open>Lines 70 to 74: the reserved characters.\<close>

definition bareUnderscore :: regex where
  "bareUnderscore = seqs [NBehind (Lit bs), chr CHR ''_'', NLook (Ch (Cls [IC CHR ''_'', IS]))]"

definition bare :: "char \<Rightarrow> regex" where
  "bare c = seqs [NBehind (Lit bs), chr c]"

definition escapeSpecials :: "string \<Rightarrow> string" where
  "escapeSpecials s =
     replaceAll noFlags (bare CHR ''^'') (bs # ''^{}'')
    (replaceAll noFlags (bare CHR ''#'') (bs # ''#'')
    (replaceAll noFlags (bare CHR ''%'') (bs # ''%'')
    (replaceAll noFlags (bare CHR ''&'') (bs # ''&'')
    (replaceAll noFlags bareUnderscore (bs # ''_'') s))))"

text \<open>Lines 78 to 87: runs of underscores.\<close>

definition blank :: "dbl \<Rightarrow> string" where
  "blank len = bs # ''underline{'' @ bs # ''hspace{'' @ numToString len @ ''cm}}''"

definition escapedBlank :: "rmatch \<Rightarrow> unit \<Rightarrow> string \<times> unit" where
  "escapedBlank mt u =
     (blank (mathMin (numTimes (length (matched mt)) (toDouble 15 100)) (toDouble 4 1)), u)"

definition rawBlank :: "rmatch \<Rightarrow> unit \<Rightarrow> string \<times> unit" where
  "rawBlank mt u =
     (blank (mathMin (numTimes (length (matched mt)) (toDouble 3 10)) (toDouble 4 1)), u)"

definition collapseBlanks :: "string \<Rightarrow> string" where
  "collapseBlanks s =
     (case replaceFn escapedBlank (pieces noFlags (twoOrMore (Grp 1 (Str [bs, CHR ''_'']))) s) () of (s1, u) \<Rightarrow>
      fst (replaceFn rawBlank (pieces noFlags (twoOrMore (chr CHR ''_'')) s1) ()))"

text \<open>Lines 90 to 105: the placeholders are put back, highest number first.\<close>

definition truthy :: "string option \<Rightarrow> bool" where
  "truthy v = (case v of None \<Rightarrow> False | Some t \<Rightarrow> t \<noteq> [])"

definition restoreBlock :: "blocks \<Rightarrow> nat \<Rightarrow> string \<Rightarrow> string" where
  "restoreBlock b i s =
     (let s1 = (if truthy (mathBlocks b i)
                then replaceStr (''MATHBLOCK'' @ showNat i) (the (mathBlocks b i)) s else s)
      in if truthy (verbatimBlocks b i)
         then replaceStr (''VERBBLOCK'' @ showNat i) (the (verbatimBlocks b i)) s1 else s1)"

primrec restoreBlocks :: "blocks \<Rightarrow> nat \<Rightarrow> string \<Rightarrow> string" where
  "restoreBlocks b 0 s = s"
| "restoreBlocks b (Suc i) s = restoreBlocks b i (restoreBlock b i s)"

definition restoreComment :: "comments \<Rightarrow> nat \<Rightarrow> string \<Rightarrow> string" where
  "restoreComment k i s =
     (if truthy (commentLines k (''LATEXCOMMENT'' @ showNat i))
      then replaceStr (''LATEXCOMMENT'' @ showNat i) (the (commentLines k (''LATEXCOMMENT'' @ showNat i))) s
      else s)"

primrec restoreComments :: "comments \<Rightarrow> nat \<Rightarrow> string \<Rightarrow> string" where
  "restoreComments k 0 s = s"
| "restoreComments k (Suc i) s = restoreComments k i (restoreComment k i s)"

text \<open>Lines 108 to 110.\<close>

definition fixCommon :: "string \<Rightarrow> string" where
  "fixCommon s =
     replaceAll noFlags (seqs [Str (bs # ''textit''), star (Ch Spc), chr CHR ''{'']) (bs # ''textit{'')
    (replaceAll noFlags (seqs [Str (bs # ''textbf''), star (Ch Spc), chr CHR ''{'']) (bs # ''textbf{'')
    (replaceAll noFlags (Str [bs, bs]) [bs, bs] s))"

text \<open>Lines 113 to 117: the count of braces; a warning is printed, nothing is repaired.\<close>

definition countMatches :: "flags \<Rightarrow> regex \<Rightarrow> string \<Rightarrow> nat" where
  "countMatches f r s = length (filter (\<lambda>p. case p of Hit mt \<Rightarrow> True | Keep c \<Rightarrow> False) (pieces f r s))"

definition braceWarnings :: "string \<Rightarrow> string list" where
  "braceWarnings s =
     (if countMatches noFlags (bare CHR ''{'') s > countMatches noFlags (bare CHR ''}'') s
      then [''Unmatched braces detected: '' @ showNat (countMatches noFlags (bare CHR ''{'') s)
            @ '' open, '' @ showNat (countMatches noFlags (bare CHR ''}'') s) @ '' close'']
      else [])"

definition sanitizeBody :: "string \<Rightarrow> string" where
  "sanitizeBody latex =
     (case protectBlocks (fixEnumerate latex) of (s1, b) \<Rightarrow>
      case protectComments s1 of (s2, k) \<Rightarrow>
      fixCommon (restoreComments k (commentCounter k)
        (restoreBlocks b (counter b) (collapseBlanks (escapeSpecials s2)))))"

text \<open>\<open>sanitizeLatex\<close> with what it prints on the console, and its result alone.\<close>

definition sanitizeLatexLog :: "string \<Rightarrow> string list \<times> string" where
  "sanitizeLatexLog latex = (braceWarnings (sanitizeBody latex), sanitizeBody latex)"

definition sanitizeLatex :: "string \<Rightarrow> string" where
  "sanitizeLatex latex = snd (sanitizeLatexLog latex)"


section \<open>The extractor\<close>

fun alts :: "regex list \<Rightarrow> regex" where
  "alts [] = Eps"
| "alts [r] = r"
| "alts (r # rs) = Alt r (alts rs)"

record Question =
  number :: enat
  question :: string
  solution :: string

text \<open>
  \<open>match[k]\<close>: the text of group \<open>k\<close>, or \<open>None\<close> for \<open>undefined\<close>. A value is truthy
  when it is a string and not the empty one.
\<close>

definition capture :: "rmatch \<Rightarrow> nat \<Rightarrow> string option" where
  "capture mt k = map_of (groupsOf mt) k"

definition orElse :: "string option \<Rightarrow> string option \<Rightarrow> string option" where
  "orElse a b = (if truthy a then a else b)"

text \<open>
  \<open>parseInt\<close>, as far as its arguments here go: a capture of \<open>(\d+)\<close>, or \<open>undefined\<close>.
  \<open>None\<close> is NaN; the value is the nearest double, infinite from \<open>2 ^ 1024\<close> on.
\<close>

definition digitsValue :: "string \<Rightarrow> int" where
  "digitsValue ds = foldl (\<lambda>v c. 10 * v + int (digitVal c)) 0 ds"

definition parseInt :: "string option \<Rightarrow> enat option" where
  "parseInt a =
     (case a of
        None \<Rightarrow> None
      | Some s \<Rightarrow>
          if takeWhile isDigit (dropWhile isWhiteSpace s) = [] then None
          else if 1024 < bitLength (round53 (digitsValue (takeWhile isDigit (dropWhile isWhiteSpace s))))
            then Some \<infinity>
            else Some (enat (nat (round53 (digitsValue (takeWhile isDigit (dropWhile isWhiteSpace s)))))))"

text \<open>Lines 28 to 52: the part of the document that is searched.\<close>

definition afterDocStart :: "string \<Rightarrow> string" where
  "afterDocStart content =
     (case indexOf content (bs # ''begin{document}'') of
        None \<Rightarrow> content
      | Some docStart \<Rightarrow> drop docStart content)"

definition endOfQuestions :: regex where
  "endOfQuestions = Look (Alt (Str (bs # ''end{document}'')) Eol)"

definition sectionMarkers :: "(flags \<times> regex) list" where
  "sectionMarkers =
     [(flagI, seqs [alts [seqs [Str ''SECTION:'', star (Ch Spc), Str ''QUESTIONS''],
                          Str ''Questions Section'', Str ''QUESTIONS'', Str ''BEGIN QUESTIONS''],
                    Grp 1 (lazyStar anyChar), endOfQuestions]),
      (noFlags, seqs [Str (bs # ''end{tabular}''), lazyStar anyChar, Str (bs # ''end{tabular}''),
                      Grp 1 (lazyStar anyChar), endOfQuestions]),
      (flagM, seqs [Str (bs # ''end{enumerate}''), Rep 0 (Some 200) True anyChar,
                    Grp 1 (alts [Str (bs # ''textbf{Q''),
                                 seqs [Str (bs # ''noindent''), lazyStar anyChar, Str ''Q.''],
                                 seqs [Bol, star (Ch Spc), plus1 (Ch Dig), chr CHR ''.'']])])]"

fun narrow :: "(flags \<times> regex) list \<Rightarrow> string \<Rightarrow> string" where
  "narrow [] questionsContent = questionsContent"
| "narrow ((f, marker) # markers) questionsContent =
     (case regexExec f marker questionsContent of
        Some mt \<Rightarrow> (if truthy (capture mt 1) then the (capture mt 1) else matched mt)
      | None \<Rightarrow> narrow markers questionsContent)"

text \<open>Lines 58 to 94: the patterns, each with its flags and its pattern for the solution.\<close>

definition notBracket :: regex where
  "notBracket = plus1 (Ch (NCls [IC CHR '']'']))"

definition colonDotParen :: regex where
  "colonDotParen = opt (Ch (Cls [IC CHR '':'', IC CHR ''.'', IC CHR '')'']))"

definition qHeader :: regex where
  "qHeader = seqs [Alt Bol (seqs [Str (bs # ''noindent''), star (Ch Spc)]), opt (Str (bs # ''textbf{'')),
                   Alt (seqs [chr CHR ''Q'', opt (chr CHR ''.'')]) (Str ''Question''), star (Ch Spc)]"

definition numberedLine :: regex where
  "numberedLine = seqs [Alt Bol (chr nl), star (Ch Spc)]"

definition patterns :: "(flags \<times> regex \<times> regex) list" where
  "patterns =
     [(noFlags,
       seqs [Str (bs # ''noindent'' @ bs # ''textbf{Q.''), Grp 1 (plus1 (Ch Dig)), chr CHR ''}'', star (Ch Spc),
             Str (bs # ''hfill''), star (Ch Spc), Str (bs # ''textbf{[''), Grp 2 notBracket, Str '']}'',
             Grp 3 (lazyStar anyChar),
             Look (alts [seqs [Str (bs # ''noindent'' @ bs # ''textbf{Q.''), plus1 (Ch Dig), chr CHR ''}''],
                         Str (bs # ''end{document}''), Eol])],
       seqs [Grp 1 (lazyStar anyChar), Str (bs # ''noindent'' @ bs # ''textbf{Solution:}''),
             Grp 2 (lazyStar anyChar), Look (Alt (Str (bs # ''noindent'' @ bs # ''rule'')) Eol)]),
      (noFlags,
       seqs [Str (bs # ''textbf{Q.''), Grp 1 (plus1 (Ch Dig)), chr CHR ''}'', star (Ch Spc),
             Str (bs # ''hfill''), star (Ch Spc), Str (bs # ''textbf{[''), Grp 2 notBracket, Str '']}'',
             Grp 3 (lazyStar anyChar),
             Look (alts [seqs [Str (bs # ''textbf{Q.''), plus1 (Ch Dig), chr CHR ''}''],
                         Str (bs # ''end{document}''), Eol])],
       seqs [Grp 1 (lazyStar anyChar), opt (Str (bs # ''textbf{'')), Str ''Solution'',
             opt (Ch (Cls [IC CHR '':'', IC CHR ''.''])), opt (chr CHR ''}''), lazyStar anyChar,
             Grp 2 (lazyStar anyChar), Eol]),
      (noFlags,
       seqs [Str (bs # ''textbf{Q.''), Grp 1 (plus1 (Ch Dig)), chr CHR ''}'', lazyStar anyChar,
             chr CHR ''['', Grp 2 notBracket, chr CHR '']'',
             Grp 3 (lazyStar anyChar),
             Look (alts [seqs [Str (bs # ''textbf{Q.''), plus1 (Ch Dig), chr CHR ''}''],
                         Str (bs # ''end{document}''), Eol])],
       seqs [Grp 1 (lazyStar anyChar), opt (Str (bs # ''textbf{'')), Alt (Str ''Solution'') (Str ''Ans''),
             colonDotParen, opt (chr CHR ''}''), lazyStar anyChar,
             Grp 2 (lazyStar anyChar), Eol]),
      (noFlags,
       seqs [Str (bs # ''subsection*{''), Alt (Str ''Q.'') (Str ''Question''), star (Ch Spc),
             Grp 1 (plus1 (Ch Dig)), star (Ch Spc), chr CHR ''['', Grp 2 notBracket, Str '']}'',
             Grp 3 (lazyStar anyChar),
             Look (alts [seqs [Str (bs # ''subsection*{''), Alt (Str ''Q.'') (Str ''Question'')],
                         Str (bs # ''end{document}''), Eol])],
       seqs [Grp 1 (lazyStar anyChar), Str (bs # ''subsection*{Solution}''),
             Grp 2 (lazyStar anyChar), Look (Alt (Str (bs # ''vspace'')) Eol)]),
      (flagM,
       seqs [qHeader, Grp 1 (plus1 (Ch Dig)), opt (chr CHR ''}''),
             opt (seqs [star (Ch Spc), opt (Ch (Cls [IC CHR ''('', IC CHR ''[''])),
                        Grp 2 (seqs [lazyStar (Ch (NCls [IC CHR '']'', IC CHR '')''])), Str ''mark'', opt (chr CHR ''s'')]),
                        opt (Ch (Cls [IC CHR '']'', IC CHR '')'']))]),
             colonDotParen, star (Ch Spc),
             Grp 3 (lazyStar anyChar),
             Look (alts [seqs [qHeader, plus1 (Ch Dig)], Str (bs # ''end{document}''), Eol])],
       seqs [Grp 1 (lazyStar anyChar), opt (Str (bs # ''textbf{'')),
             alts [Str ''Solution'', Str ''Answer'', Str ''Ans''],
             colonDotParen, opt (chr CHR ''}''), lazyStar anyChar,
             Grp 2 (lazyStar anyChar), Eol]),
      (noFlags,
       seqs [Str (bs # ''section*{''), opt (seqs [Str ''Question'', plus1 (Ch Spc)]), Grp 1 (plus1 (Ch Dig)),
             opt (seqs [star (Ch Spc), chr CHR ''['', Grp 2 notBracket, chr CHR '']'']), chr CHR ''}'',
             Grp 3 (lazyStar anyChar),
             Look (alts [Str (bs # ''section*{''), Str (bs # ''end{document}''), Eol])],
       seqs [Grp 1 (lazyStar anyChar), Str (bs # ''section*{Solution}''), Grp 2 (lazyStar anyChar), Eol]),
      (flagM,
       seqs [numberedLine, Grp 1 (plus1 (Ch Dig)), Ch (Cls [IC CHR ''.'', IC CHR '')'']), star (Ch Spc),
             Grp 2 (lazyStar anyChar),
             Look (alts [seqs [numberedLine, plus1 (Ch Dig), Ch (Cls [IC CHR ''.'', IC CHR '')''])],
                         Str (bs # ''end{document}''), Eol])],
       seqs [Grp 1 (lazyStar anyChar), alts [Str ''Solution'', Str ''Answer'', Str ''Ans''],
             colonDotParen, star (Ch Spc), Grp 2 (lazyStar anyChar), Eol])]"

text \<open>Lines 102 to 146: one match of a pattern, kept as a question or skipped.\<close>

definition isInstruction :: "string \<Rightarrow> bool" where
  "isInstruction fullContent =
     (includesStr (toLowerCase fullContent) ''instructions to candidates''
      \<or> includesStr (toLowerCase fullContent) ''general instructions''
      \<or> (includesStr (toLowerCase fullContent) ''answer any'' \<and> length fullContent < 100)
      \<or> includesStr (toLowerCase fullContent) ''examination paper''
      \<or> (includesStr (toLowerCase fullContent) ''duration:''
          \<and> includesStr (toLowerCase fullContent) ''maximum marks:''))"

definition splitSolution :: "regex \<Rightarrow> string \<Rightarrow> string \<times> string" where
  "splitSolution solutionPattern fullContent =
     (case regexExec noFlags solutionPattern fullContent of
        Some solutionMatch \<Rightarrow>
          (trim (capText (groupsOf solutionMatch) 1),
           (case capture solutionMatch 2 of None \<Rightarrow> [] | Some t \<Rightarrow> trim t))
      | None \<Rightarrow> (trim fullContent, []))"

definition accept :: "regex \<Rightarrow> rmatch \<Rightarrow> Question option" where
  "accept solutionPattern mt =
     (case parseInt (capture mt 1) of
        None \<Rightarrow> None
      | Some questionNumber \<Rightarrow>
          (case orElse (capture mt 3) (capture mt 2) of
             None \<Rightarrow> None
           | Some fullContent \<Rightarrow>
               if fullContent = [] then None
               else if length (trim fullContent) < 5 then None
               else if isInstruction fullContent then None
               else (case splitSolution solutionPattern fullContent of
                       (questionText, solutionText) \<Rightarrow>
                         if 5 < length questionText
                         then Some \<lparr>number = questionNumber, question = questionText, solution = solutionText\<rparr>
                         else None)))"

definition hits :: "flags \<Rightarrow> regex \<Rightarrow> string \<Rightarrow> rmatch list" where
  "hits f r s = concat (map (\<lambda>p. case p of Hit mt \<Rightarrow> [mt] | Keep c \<Rightarrow> []) (pieces f r s))"

definition tryPattern :: "flags \<times> regex \<times> regex \<Rightarrow> string \<Rightarrow> Question list" where
  "tryPattern p questionsContent =
     (case p of (f, r, solutionPattern) \<Rightarrow>
        concat (map (\<lambda>mt. case accept solutionPattern mt of None \<Rightarrow> [] | Some q \<Rightarrow> [q])
                    (hits f r questionsContent)))"

fun cascade :: "(flags \<times> regex \<times> regex) list \<Rightarrow> string \<Rightarrow> Question list" where
  "cascade [] questionsContent = []"
| "cascade (p # ps) questionsContent =
     (if tryPattern p questionsContent = [] then cascade ps questionsContent
      else tryPattern p questionsContent)"

text \<open>
  Lines 154 to 157: a \<open>Map\<close> keyed by the number keeps each key at the place of its first
  entry and with the value of its last one; the values are then sorted by number.
\<close>

fun mapSet :: "'k \<Rightarrow> 'v \<Rightarrow> ('k \<times> 'v) list \<Rightarrow> ('k \<times> 'v) list" where
  "mapSet k v [] = [(k, v)]"
| "mapSet k v ((k', v') # es) = (if k' = k then (k, v) # es else (k', v') # mapSet k v es)"

definition newMap :: "('k \<times> 'v) list \<Rightarrow> ('k \<times> 'v) list" where
  "newMap entries = foldl (\<lambda>mp (k, v). mapSet k v mp) [] entries"

definition uniqueQuestions :: "Question list \<Rightarrow> Question list" where
  "uniqueQuestions parsedQuestions =
     sort_key number (map snd (newMap (map (\<lambda>q. (number q, q)) parsedQuestions)))"

definition parseQuestions :: "string \<Rightarrow> Question list" where
  "parseQuestions content =
     uniqueQuestions (cascade patterns (narrow sectionMarkers (afterDocStart content)))"


section \<open>The renderer\<close>

text \<open>A chain of \<open>replace\<close> calls: each pattern with its replacement, applied in order.\<close>

definition replaceEach :: "(regex \<times> string) list \<Rightarrow> string \<Rightarrow> string" where
  "replaceEach table s = foldl (\<lambda>t (r, tpl). replaceAll noFlags r tpl t) s table"

definition notBrace :: regex where
  "notBrace = star (Ch (NCls [IC CHR ''}'']))"

definition braced :: regex where
  "braced = seqs [chr CHR ''{'', notBrace, chr CHR ''}'']"

definition bracketed :: regex where
  "bracketed = seqs [chr CHR ''['', star (Ch (NCls [IC CHR '']''])), chr CHR '']'']"

definition capturedBrace :: regex where
  "capturedBrace = seqs [chr CHR ''{'', Grp 1 notBrace, chr CHR ''}'']"

text \<open>Lines 221 to 243.\<close>

definition preamble :: "(regex \<times> string) list" where
  \<open>preamble =
     [(seqs [Str (bs # ''documentclass''), opt bracketed, braced], []),
      (seqs [Str (bs # ''usepackage''), opt bracketed, braced], []),
      (seqs [Str (bs # ''geometry''), braced], []),
      (seqs [Str (bs # ''pagestyle''), braced], []),
      (seqs [Str (bs # ''setlength''), braced, braced], []),
      (seqs [Str (bs # ''addtolength''), braced, braced], []),
      (Str (bs # ''fancyhf{}''), []),
      (seqs [Str (bs # ''fancyhead''), bracketed, braced], []),
      (seqs [Str (bs # ''fancyfoot''), bracketed, braced], []),
      (Str (bs # ''begin{document}''), []),
      (Str (bs # ''end{document}''), []),
      (Str (bs # ''maketitle''), []),
      (seqs [Str (bs # ''title''), capturedBrace], []),
      (seqs [Str (bs # ''author''), capturedBrace], []),
      (seqs [Str (bs # ''date''), capturedBrace], []),
      (Str (bs # ''noindent''), []),
      (Str (bs # ''centering''), []),
      (seqs [Str (bs # ''phantom''), braced], []),
      (seqs [Str (bs # ''dimexpr''), notBrace, Str (bs # ''fboxsep''), notBrace, Str (bs # ''fboxrule'')],
       ''100%''),
      (seqs [Str (bs # ''vspace''), braced], ''<div class="my-4"></div>''),
      (seqs [Str (bs # ''hspace''), braced], ''<span class="inline-block w-4"></span>''),
      (Str (bs # ''newpage''), ''<div class="border-t-2 border-gray-300 my-8"></div>'')]\<close>

text \<open>Lines 246 and 247.\<close>

definition center :: "(regex \<times> string) list" where
  \<open>center =
     [(seqs [Str (bs # ''begin{center}''), Grp 1 (lazyStar anyChar), Str (bs # ''end{center}'')],
       ''<div class="text-center">$1</div>'')]\<close>

text \<open>Lines 250 to 259: boxes; the contents of an instruction box get their lists rewritten.\<close>

definition boxLists :: "(regex \<times> string) list" where
  \<open>boxLists =
     [(seqs [Str (bs # ''begin{itemize}[leftmargin=*''), opt (chr CHR '',''), star (Ch Spc),
             Str ''itemsep='', star (Ch (NCls [IC CHR '']''])), chr CHR '']''],
       ''<ul class="list-disc ml-5 space-y-0.5 my-2">''),
      (seqs [Str (bs # ''begin{itemize}[itemsep=''), star (Ch (NCls [IC CHR '']''])), chr CHR '']''],
       ''<ul class="list-disc ml-5 space-y-0.5 my-2">''),
      (Str (bs # ''begin{itemize}''), ''<ul class="list-disc ml-5 space-y-1 my-2">'')]\<close>

definition instructionBox :: "rmatch \<Rightarrow> unit \<Rightarrow> string \<times> unit" where
  \<open>instructionBox mt u =
     (''<div class="border-2 border-black p-4 my-6 bg-white">''
        @ replaceEach boxLists (capText (groupsOf mt) 1) @ ''</div>'', u)\<close>

definition boxes :: "string \<Rightarrow> string" where
  \<open>boxes s =
     replaceAll noFlags (seqs [Str (bs # ''fbox{''), Grp 1 (lazyStar anyChar), chr CHR ''}''])
       ''<div class="border-2 border-gray-800 p-4 rounded-md inline-block">$1</div>''
       (fst (replaceFn instructionBox
          (pieces noFlags (seqs [Str (bs # ''fbox{'' @ bs # ''parbox''), braced, chr CHR ''{'',
                                 Grp 1 (lazyStar anyChar), Str ''}}'']) s) ()))\<close>

text \<open>Lines 262 to 292.\<close>

definition sizedGroup :: "string \<Rightarrow> regex" where
  "sizedGroup name =
     seqs [Str (CHR ''{'' # bs # name), plus1 (Ch Spc), Grp 1 (lazyStar (Ch Dot)), chr CHR ''}'']"

definition structural :: "(regex \<times> string) list" where
  \<open>structural =
     [(seqs [Str (bs # ''rule''), braced, braced], ''<hr class="border-t-2 border-gray-400 my-2" />''),
      (seqs [Str (bs # ''section*''), capturedBrace],
       ''<h2 class="text-2xl font-bold mt-8 mb-4 text-purple-700">$1</h2>''),
      (seqs [Str (bs # ''subsection*''), capturedBrace],
       ''<h3 class="text-xl font-semibold mt-6 mb-3 text-indigo-600">$1</h3>''),
      (seqs [Str (bs # ''section''), capturedBrace],
       ''<h2 class="text-2xl font-bold mt-8 mb-4 text-purple-700">$1</h2>''),
      (seqs [Str (bs # ''subsection''), capturedBrace],
       ''<h3 class="text-xl font-semibold mt-6 mb-3 text-indigo-600">$1</h3>''),
      (sizedGroup ''Large'', ''<span class="text-2xl">$1</span>''),
      (sizedGroup ''large'', ''<span class="text-xl">$1</span>''),
      (sizedGroup ''small'', ''<span class="text-sm">$1</span>''),
      (sizedGroup ''tiny'', ''<span class="text-xs">$1</span>''),
      (seqs [Str (bs # ''begin{itemize}''), opt bracketed], ''<ul class="list-disc ml-6 my-3 space-y-1">''),
      (Str (bs # ''end{itemize}''), ''</ul>''),
      (seqs [Str (bs # ''begin{enumerate}''), opt bracketed],
       ''<ol class="list-decimal ml-6 my-3 space-y-1">''),
      (Str (bs # ''end{enumerate}''), ''</ol>''),
      (seqs [Str (bs # ''item''), opt (seqs [star (Ch Spc), bracketed])], ''<li class="ml-0 pl-1">''),
      (seqs [Str (bs # ''textbf''), capturedBrace], ''<strong>$1</strong>''),
      (seqs [Str (bs # ''textit''), capturedBrace], ''<em>$1</em>''),
      (seqs [Str (bs # ''emph''), capturedBrace], ''<em>$1</em>''),
      (seqs [Str (bs # ''underline''), capturedBrace], ''<u>$1</u>'')]\<close>

text \<open>Lines 295 to 314.\<close>

definition breaksAndSymbols :: "(regex \<times> string) list" where
  \<open>breaksAndSymbols =
     [(seqs [Str [bs, bs], opt (chr CHR ''[''), star (Ch (NCls [IC CHR '']''])), opt (chr CHR '']'')],
       ''<br/>''),
      (Str (bs # ''newline''), ''<br/>''),
      (Str (bs # ''&''), ''&''),
      (Str (bs # ''%''), ''%''),
      (Str (bs # ''#''), ''#''),
      (seqs [Str (bs # ''_''), NLook (seqs [star (Ch (NCls [IC CHR ''$''])), chr CHR ''$''])], ''_''),
      (Str (bs # ''bigskip''), ''<div class="my-6"></div>''),
      (Str (bs # ''medskip''), ''<div class="my-4"></div>''),
      (Str (bs # ''smallskip''), ''<div class="my-2"></div>''),
      (Str (bs # ''quad''), ''<span class="inline-block w-8"></span>''),
      (Str (bs # ''qquad''), ''<span class="inline-block w-16"></span>''),
      (seqs [Str (bs # ''par''), star (Ch Spc)], ''</p><p class="my-4">'')]\<close>

definition markup :: "string \<Rightarrow> string" where
  "markup latex =
     replaceEach breaksAndSymbols
       (replaceEach structural (boxes (replaceEach center (replaceEach preamble latex))))"

text \<open>Lines 317 to 328: paragraphs at the blank lines.\<close>

fun splitBlankLines :: "string \<Rightarrow> string \<Rightarrow> string list" where
  "splitBlankLines acc [] = [rev acc]"
| "splitBlankLines acc [c] = [rev (c # acc)]"
| "splitBlankLines acc (c # d # cs) =
     (if c = nl \<and> d = nl then rev acc # splitBlankLines [] cs
      else splitBlankLines (c # acc) (d # cs))"

fun joinLines :: "string list \<Rightarrow> string" where
  "joinLines [] = []"
| "joinLines [p] = p"
| "joinLines (p # ps) = p @ nl # joinLines ps"

definition loneTag :: regex where
  "loneTag = seqs [Bol, chr CHR ''<'', plus1 (Ch (NCls [IC CHR ''>''])), chr CHR ''>'', Eol]"

definition blockTag :: regex where
  "blockTag = seqs [Bol, chr CHR ''<'',
     Grp 1 (alts [Str ''div'', seqs [chr CHR ''h'', Ch (Cls [IR CHR ''1'' CHR ''6''])],
                  Str ''ul'', Str ''ol'', Str ''hr''])]"

definition keptParagraph :: "string \<Rightarrow> bool" where
  "keptParagraph para = (0 < length para \<and> regexExec noFlags loneTag para = None)"

definition wrapParagraph :: "string \<Rightarrow> string" where
  \<open>wrapParagraph para =
     (if regexExec noFlags blockTag para = None then ''<p class="my-4">'' @ para @ ''</p>''
      else para)\<close>

definition paragraphs :: "string \<Rightarrow> string" where
  "paragraphs formatted =
     joinLines (map wrapParagraph (filter keptParagraph (map trim (splitBlankLines [] formatted))))"

definition formatContent :: "string \<Rightarrow> string" where
  "formatContent latex = paragraphs (markup latex)"


section \<open>What the escaping and the rendering are compared with\<close>







section \<open>Documents for the examples\<close>

text \<open>A question header of the standard form, followed by the text of the question.\<close>

definition header :: "string \<Rightarrow> string \<Rightarrow> string" where
  "header n txt =
     bs # ''noindent'' @ bs # ''textbf{Q.'' @ n @ ''} '' @ bs # ''hfill '' @ bs # ''textbf{[2]} '' @ txt @ [nl]"

definition headers3121 :: string where
  "headers3121 =
     header ''3'' ''Third one?'' @ header ''1'' ''First one?''
       @ header ''2'' ''Second one?'' @ header ''1'' ''Again one?''"


definition helloWorld :: string where
  "helloWorld = bs # ''textbf{Hello} '' @ bs # ''& '' @ bs # ''textit{World}''"


section \<open>The map of questions\<close>

lemma mapSet_keys:
  "map fst (mapSet k v es) = (if k \<in> fst ` set es then map fst es else map fst es @ [k])"
  by (induction k v es rule: mapSet.induct) force+

lemma mapSet_distinct: "distinct (map fst es) \<Longrightarrow> distinct (map fst (mapSet k v es))"
  by (simp add: mapSet_keys)

lemma mapSet_map_of: "map_of (mapSet k v es) = (map_of es)(k \<mapsto> v)"
  by (induction es) (auto simp: fun_eq_iff)

lemma mapSet_set: "set (mapSet k v es) \<subseteq> insert (k, v) (set es)"
  by (induction es) (auto split: if_splits)

lemma foldl_mapSet_distinct:
  "distinct (map fst acc) \<Longrightarrow> distinct (map fst (foldl (\<lambda>mp (k, v). mapSet k v mp) acc es))"
  by (induction es arbitrary: acc) (auto simp: mapSet_distinct split: prod.splits)

lemma foldl_mapSet_map_of:
  "map_of (foldl (\<lambda>mp (k, v). mapSet k v mp) acc es) = map_of acc ++ map_of (rev es)"
  by (induction es arbitrary: acc) (auto simp: mapSet_map_of split: prod.splits)

lemma foldl_mapSet_set:
  "set (foldl (\<lambda>mp (k, v). mapSet k v mp) acc es) \<subseteq> set acc \<union> set es"
proof (induction es arbitrary: acc)
  case Nil
  then show ?case by simp
next
  case (Cons e es)
  obtain k v where e: "e = (k, v)" by (cases e)
  have "set (foldl (\<lambda>mp (k, v). mapSet k v mp) (mapSet k v acc) es) \<subseteq> set (mapSet k v acc) \<union> set es"
    by (rule Cons.IH)
  also have "\<dots> \<subseteq> insert (k, v) (set acc) \<union> set es"
    using mapSet_set [of k v acc] by auto
  finally show ?case by (auto simp: e)
qed

lemma newMap_distinct: "distinct (map fst (newMap es))"
  by (simp add: newMap_def foldl_mapSet_distinct)

lemma newMap_map_of: "map_of (newMap es) = map_of (rev es)"
  by (simp add: newMap_def foldl_mapSet_map_of)

lemma newMap_set: "set (newMap es) \<subseteq> set es"
  using foldl_mapSet_set [of "[]" es] by (simp add: newMap_def)

lemma newMap_keyed:
  "map number (map snd (newMap (map (\<lambda>q. (number q, q)) ps)))
     = map fst (newMap (map (\<lambda>q. (number q, q)) ps))"
proof -
  have "\<And>e. e \<in> set (newMap (map (\<lambda>q. (number q, q)) ps)) \<Longrightarrow> number (snd e) = fst e"
    using newMap_set [of "map (\<lambda>q. (number q, q)) ps"] by auto
  then show ?thesis by simp
qed

lemma uniqueQuestions_numbers_sorted: "sorted (map number (uniqueQuestions ps))"
  by (simp add: uniqueQuestions_def)

lemma distinct_map_sort_key: "distinct (map f (sort_key g xs)) = distinct (map f xs)"
  by (simp add: distinct_map)

lemma uniqueQuestions_numbers_distinct: "distinct (map number (uniqueQuestions ps))"
proof -
  have "distinct (map number (map snd (newMap (map (\<lambda>q. (number q, q)) ps))))"
    by (metis newMap_keyed newMap_distinct)
  then show ?thesis
    unfolding uniqueQuestions_def by (simp only: distinct_map_sort_key)
qed


lemma alist_filter_key:
  "distinct (map fst al) \<Longrightarrow> map_of al n = Some v \<Longrightarrow> filter (\<lambda>e. fst e = n) al = [(n, v)]"
proof (induction al)
  case Nil
  then show ?case by simp
next
  case (Cons e al)
  show ?case
  proof (cases "fst e = n")
    case True
    then have "n \<notin> fst ` set al" using Cons.prems(1) by auto
    then have "filter (\<lambda>e. fst e = n) al = []" by (auto simp: filter_empty_conv)
    moreover have "e = (n, v)" using True Cons.prems(2) by (cases e) auto
    ultimately show ?thesis by simp
  next
    case False
    then show ?thesis using Cons by (cases e) auto
  qed
qed

lemma map_of_rev_last:
  "n \<in> number ` set ps \<Longrightarrow>
   map_of (rev (map (\<lambda>q. (number q, q)) ps)) n = Some (last (filter (\<lambda>q. number q = n) ps))"
proof (induction ps rule: rev_induct)
  case Nil
  then show ?case by simp
next
  case (snoc p ps)
  then show ?case by (cases "number p = n") auto
qed

lemma filter_keyed:
  "(\<And>e. e \<in> set al \<Longrightarrow> number (snd e) = fst e) \<Longrightarrow>
   filter (\<lambda>q. number q = n) (map snd al) = map snd (filter (\<lambda>e. fst e = n) al)"
  by (induction al) auto

lemma last_of_number:
  assumes "n \<in> number ` set ps"
  shows "filter (\<lambda>q. number q = n) (uniqueQuestions ps) = [last (filter (\<lambda>q. number q = n) ps)]"
proof -
  let ?al = "newMap (map (\<lambda>q. (number q, q)) ps)"
  have keyed: "\<And>e. e \<in> set ?al \<Longrightarrow> number (snd e) = fst e"
    using newMap_set [of "map (\<lambda>q. (number q, q)) ps"] by auto
  have "filter (\<lambda>e. fst e = n) ?al = [(n, last (filter (\<lambda>q. number q = n) ps))]"
    by (rule alist_filter_key) (simp_all add: newMap_distinct newMap_map_of map_of_rev_last [OF assms])
  then have "filter (\<lambda>q. number q = n) (map snd ?al) = [last (filter (\<lambda>q. number q = n) ps)]"
    using filter_keyed [of ?al n, OF keyed] by simp
  then show ?thesis
    unfolding uniqueQuestions_def by (simp add: filter_sort)
qed

section \<open>Patterns that start with a literal text\<close>











section \<open>Paragraphs of one line\<close>







section \<open>The escaping step, character by character\<close>
















section \<open>Where a question of the result comes from\<close>






section \<open>The examples, computed\<close>

lemma parse_headers3121:
  "parseQuestions headers3121 =
     [\<lparr>number = 1, question = ''Again one?'', solution = []\<rparr>,
      \<lparr>number = 2, question = ''Second one?'', solution = []\<rparr>,
      \<lparr>number = 3, question = ''Third one?'', solution = []\<rparr>]"
  by code_simp



lemma format_helloWorld:
  \<open>formatContent helloWorld = ''<p class="my-4"><strong>Hello</strong> & <em>World</em></p>''\<close>
  by code_simp

section \<open>The claims\<close>

text \<open>
  C1 (idempotence of the sanitizer: sanitizing a sanitized text changes nothing). On the
  input of two underscores the code escapes the second underscore only, and a second run
  over that result escapes the first one too and then collapses the pair into a blank: the
  two results differ.
\<close>

theorem sanitizeLatex_second_run_differs:
  "sanitizeLatex ''__'' = [CHR ''_'', bs, CHR ''_'']
   \<and> sanitizeLatex (sanitizeLatex ''__'') = bs # ''underline{'' @ bs # ''hspace{0.6cm}}''"
  by code_simp

text \<open>
  C2 (every protected span is in the output, unchanged and in place). The inline formula of
  a comment line is stored as a protected span, and the output holds its placeholder instead;
  a verbatim span that holds two dollar signs comes back with one.
\<close>

theorem sanitizeLatex_loses_protected_span:
  "mathBlocks (snd (protectBlocks ''%$a$'')) 0 = Some ''$a$''
   \<and> sanitizeLatex ''%$a$'' = ''%MATHBLOCK0''
   \<and> verbatimBlocks (snd (protectBlocks (bs # ''verb|a$$b|''))) 0 = Some (bs # ''verb|a$$b|'')
   \<and> sanitizeLatex (bs # ''verb|a$$b|'') = bs # ''verb|a$b|''"
  by code_simp


text \<open>
  C4 (a run of two or more underscores becomes exactly one blank). On the input of the
  specification, six underscores at the end of the text, the code turns five of them into a
  blank of 1.5cm and leaves the sixth as an escaped underscore.
\<close>

theorem sanitizeLatex_blank_run_example:
  "sanitizeLatex ''Name: ______''
     = ''Name: '' @ bs # ''underline{'' @ bs # ''hspace{1.5cm}}'' @ [bs, CHR ''_'']"
  by code_simp






text \<open>
  C7 (the list of questions has no two entries with the same number and is strictly ascending
  by number; headers numbered 3, 1, 2, 1 yield three records in the order 1, 2, 3).
\<close>

theorem parseQuestions_strictly_ascending:
  "sorted_wrt (<) (map number (parseQuestions content))
   \<and> distinct (map number (parseQuestions content))
   \<and> map number (parseQuestions headers3121) = [1, 2, 3]"
  using uniqueQuestions_numbers_sorted [of "cascade patterns (narrow sectionMarkers (afterDocStart content))"]
    uniqueQuestions_numbers_distinct [of "cascade patterns (narrow sectionMarkers (afterDocStart content))"]
  by (simp add: strict_sorted_iff parseQuestions_def [of content] parse_headers3121)




text \<open>
  C9, as stated (the example fragment is rendered as the bold text, an ampersand and the
  italic text, and nothing else): the result of the code differs from the text of the claim.
\<close>

theorem formatContent_helloWorld_differs:
  \<open>formatContent helloWorld \<noteq> ''<strong>Hello</strong> & <em>World</em>''\<close>
  by (simp add: format_helloWorld)

text \<open>
  C9, amended. The example fragment is rendered as the bold text, an ampersand and the
  italic text, between the opening and the closing tag of a paragraph.
\<close>

theorem formatContent_helloWorld:
  \<open>formatContent helloWorld = ''<p class="my-4"><strong>Hello</strong> & <em>World</em></p>''\<close>
  by (rule format_helloWorld)

text \<open>
  C10 (of several accepted candidates with the same number, the question kept is the one
  parsed last). The result is \<open>uniqueQuestions\<close> of the accepted candidates in the order
  they were parsed, and for every number among them it holds exactly one question with that
  number: the last candidate that has it.
\<close>

theorem uniqueQuestions_keeps_last:
  "parseQuestions content
     = uniqueQuestions (cascade patterns (narrow sectionMarkers (afterDocStart content)))
   \<and> (n \<in> number ` set parsedQuestions \<longrightarrow>
        filter (\<lambda>q. number q = n) (uniqueQuestions parsedQuestions)
          = [last (filter (\<lambda>q. number q = n) parsedQuestions)])"
  using last_of_number [of n parsedQuestions] by (simp add: parseQuestions_def)

theorem uniqueQuestions_keeps_last_witness:
  "1 \<in> number ` set [\<lparr>number = 1, question = ''First one?'', solution = []\<rparr>,
                      \<lparr>number = 2, question = ''Second one?'', solution = []\<rparr>,
                      \<lparr>number = 1, question = ''Again one?'', solution = []\<rparr>]
   \<and> filter (\<lambda>q. number q = 1)
        (uniqueQuestions [\<lparr>number = 1, question = ''First one?'', solution = []\<rparr>,
                          \<lparr>number = 2, question = ''Second one?'', solution = []\<rparr>,
                          \<lparr>number = 1, question = ''Again one?'', solution = []\<rparr>])
       = [\<lparr>number = 1, question = ''Again one?'', solution = []\<rparr>]"
  using uniqueQuestions_keeps_last [of content 1
      "[\<lparr>number = 1, question = ''First one?'', solution = []\<rparr>,
        \<lparr>number = 2, question = ''Second one?'', solution = []\<rparr>,
        \<lparr>number = 1, question = ''Again one?'', solution = []\<rparr>]"]
  by simp

end
